theory Spec2Isabelle
  imports Main
begin

section \<open>Python values used by \<open>mailbox_poll.py\<close>\<close>

text \<open>
  Strings and byte strings are both \<open>char list\<close>; a character of a string is a code point
  below 256. The builtins the script calls are written out on that range: \<open>int(s)\<close>
  (surrounding white space, one optional sign, decimal digits, single underscores between
  digits), \<open>str(n)\<close> for an integer, \<open>bytes.split()\<close> (runs of ASCII white space) and
  \<open>str.split(sep)\<close>. The white space that \<open>int\<close> strips is the characters 9 to 13 and 32
  and, of the code points from 128 on, the two that are spaces: 133 and 160. The characters
  28 to 31 are not stripped. No code point from 128 to 255 is a decimal digit. Code points
  from 256 on and the interpreter's limit on the number of digits are not part of the
  model.
\<close>

type_synonym bytes = string

datatype py_exception =
    IndexError
  | ValueError
  | KeyError string
  | TypeError
  | AttributeError
  | OverflowError
  | LibraryError string

definition is_digit :: "char \<Rightarrow> bool" where
  "is_digit c = (48 \<le> (of_char c :: nat) \<and> (of_char c :: nat) \<le> 57)"

definition digit_val :: "char \<Rightarrow> nat" where
  "digit_val c = (of_char c :: nat) - 48"

definition str_space :: "char \<Rightarrow> bool" where
  "str_space c =
     (let n = (of_char c :: nat) in (9 \<le> n \<and> n \<le> 13) \<or> n = 32 \<or> n = 133 \<or> n = 160)"

definition bytes_space :: "char \<Rightarrow> bool" where
  "bytes_space c = (let n = (of_char c :: nat) in (9 \<le> n \<and> n \<le> 13) \<or> n = 32)"

definition strip :: "string \<Rightarrow> string" where
  "strip s = rev (dropWhile str_space (rev (dropWhile str_space s)))"

text \<open>
  The digits of an integer literal: \<open>prev\<close> tells whether the character just read was a
  digit, so that an underscore is accepted only between two digits.
\<close>

fun parse_digits :: "nat \<Rightarrow> bool \<Rightarrow> string \<Rightarrow> nat option" where
  "parse_digits acc prev [] = (if prev then Some acc else None)"
| "parse_digits acc prev (c # cs) =
     (if is_digit c then parse_digits (10 * acc + digit_val c) True cs
      else if c = CHR ''_'' \<and> prev then parse_digits acc False cs
      else None)"

text \<open>\<open>int(s)\<close>: \<open>None\<close> stands for the \<open>ValueError\<close> the builtin raises.\<close>

definition py_int :: "string \<Rightarrow> int option" where
  "py_int s =
     (case strip s of
        [] \<Rightarrow> None
      | c # cs \<Rightarrow>
          if c = CHR ''-'' then map_option (\<lambda>n. - int n) (parse_digits 0 False cs)
          else if c = CHR ''+'' then map_option int (parse_digits 0 False cs)
          else map_option int (parse_digits 0 False (c # cs)))"

definition digit_char :: "nat \<Rightarrow> char" where
  "digit_char d = char_of (48 + d)"

fun str_nat :: "nat \<Rightarrow> string" where
  "str_nat n = (if n < 10 then [digit_char n] else str_nat (n div 10) @ [digit_char (n mod 10)])"

declare str_nat.simps [simp del]

text \<open>\<open>str(n)\<close> for an integer \<open>n\<close>.\<close>

definition py_str :: "int \<Rightarrow> string" where
  "py_str i = (if i < 0 then CHR ''-'' # str_nat (nat (- i)) else str_nat (nat i))"

text \<open>
  \<open>b.split()\<close> on a byte string: the maximal runs of bytes that are not white space,
  in order. \<open>acc\<close> is the run being read, reversed.
\<close>

fun py_split_aux :: "bytes \<Rightarrow> bytes \<Rightarrow> bytes list" where
  "py_split_aux acc [] = (if acc = [] then [] else [rev acc])"
| "py_split_aux acc (c # cs) =
     (if bytes_space c
      then (if acc = [] then py_split_aux [] cs else rev acc # py_split_aux [] cs)
      else py_split_aux (c # acc) cs)"

definition py_split :: "bytes \<Rightarrow> bytes list" where
  "py_split s = py_split_aux [] s"

text \<open>
  \<open>s.split(sep)\<close> for a separator that is not empty (the script's is a constant of five
  characters): the pieces between the occurrences of \<open>sep\<close>, found from the left.
\<close>

function split_sep :: "string \<Rightarrow> string \<Rightarrow> string \<Rightarrow> string list" where
  "split_sep sep acc [] = [rev acc]"
| "split_sep sep acc (c # cs) =
     (if sep \<noteq> [] \<and> take (length sep) (c # cs) = sep
      then rev acc # split_sep sep [] (drop (length sep) (c # cs))
      else split_sep sep (c # acc) cs)"
  by pat_completeness auto
termination
  by (relation "measure (\<lambda>(sep, acc, s). length s)") auto

definition py_split_on :: "string \<Rightarrow> string \<Rightarrow> string list" where
  "py_split_on sep s = split_sep sep [] s"

section \<open>The timer registry\<close>

text \<open>
  The job queue belongs to the bot framework. It is modelled by what the script relies on:
  the queue is the list of scheduled jobs, \<open>run_repeating\<close> adds one job or raises,
  \<open>get_jobs_by_name\<close> returns the jobs with a given name, and \<open>schedule_removal\<close> takes
  one job out of the queue at once, as the scheduler does in the version of the framework
  whose handlers take \<open>(update, context)\<close>. Looking jobs up and removing them always
  returns.
\<close>

record 'c job =
  name :: string
  interval :: int
  job_context :: int
  callback :: 'c

definition get_jobs_by_name :: "string \<Rightarrow> 'c job list \<Rightarrow> 'c job list" where
  "get_jobs_by_name nm q = filter (\<lambda>j. name j = nm) q"

definition schedule_removal :: "'c job \<Rightarrow> 'c job list \<Rightarrow> 'c job list" where
  "schedule_removal j q = remove1 j q"

text \<open>
  The scheduler's part of \<open>run_repeating\<close>. The first run of the new job is the date
  \<open>now + n\<close> seconds; when that date cannot be represented the call raises
  \<open>OverflowError\<close> and adds nothing. \<open>horizon\<close> is the largest number of seconds for which
  the date can still be represented at the time of the call. An interval of no seconds is
  stored as one second.
\<close>

definition run_repeating ::
  "int \<Rightarrow> 'c \<Rightarrow> int \<Rightarrow> int \<Rightarrow> string \<Rightarrow> 'c job list \<Rightarrow> py_exception + 'c job list" where
  "run_repeating horizon cb n ctx nm q =
     (if horizon < n then Inl OverflowError
      else Inr (q @ [\<lparr>name = nm, interval = (if n = 0 then 1 else n), job_context = ctx,
                       callback = cb\<rparr>]))"

text \<open>\<open>remove_job_if_exists(name, context)\<close>: the flag returned and the queue afterwards.\<close>

definition remove_job_if_exists :: "string \<Rightarrow> 'c job list \<Rightarrow> bool \<times> 'c job list" where
  "remove_job_if_exists nm q =
     (let current_jobs = get_jobs_by_name nm q in
      if current_jobs = [] then (False, q)
      else (True, fold schedule_removal current_jobs q))"

text \<open>
  A command handler receives the chat id of the message and the arguments of the command,
  and works on the job queue. \<open>set_timer\<close> returns the queue afterwards, the replies it
  sent, and the exception it ends with, if any: its \<open>except\<close> clause catches \<open>IndexError\<close>
  and \<open>ValueError\<close> only, and an exception of \<open>run_repeating\<close> comes after the old jobs
  were removed and before any reply.
\<close>

definition set_timer ::
  "int \<Rightarrow> 'c \<Rightarrow> int \<Rightarrow> string list \<Rightarrow> 'c job list \<Rightarrow>
   'c job list \<times> string list \<times> py_exception option" where
  "set_timer horizon cb chat_id args q =
     (case args of
        [] \<Rightarrow> (q, [''Usage: /set <seconds>''], None)
      | a # _ \<Rightarrow>
          (case py_int a of
             None \<Rightarrow> (q, [''Usage: /set <seconds>''], None)
           | Some n \<Rightarrow>
               if n < 0 then (q, [''Sorry we can not go back to future!''], None)
               else
                 (let (job_removed, q1) = remove_job_if_exists (py_str chat_id) q
                  in case run_repeating horizon cb n chat_id (py_str chat_id) q1 of
                       Inl x \<Rightarrow>
                         if x = IndexError \<or> x = ValueError
                         then (q1, [''Usage: /set <seconds>''], None)
                         else (q1, [], Some x)
                     | Inr q2 \<Rightarrow>
                         (let text = ''Timer successfully set!'' @
                                (if job_removed then '' Old one was removed.'' else '''')
                          in (q2, [text], None)))))"

definition unset :: "int \<Rightarrow> 'c job list \<Rightarrow> 'c job list \<times> string list" where
  "unset chat_id q =
     (let (job_removed, q1) = remove_job_if_exists (py_str chat_id) q;
          text = (if job_removed then ''Timer successfully cancelled!''
                  else ''You have no active timer.'')
      in (q1, [text]))"

section \<open>The mailbox session and the scan\<close>

text \<open>
  The mail server, the MIME parser, the folder-name codec, the chat and the terminal are
  outside the script. They are the fields of a record of answers: what each call of the
  script returns, or the exception it raises. A run of the script is the list of the calls
  it made, in order, with the value it ends with.
\<close>

datatype fetch_item = Pair bytes bytes | Raw bytes | NoneItem

record mime_part =
  content_type :: string
  payload :: string

record storage =
  token :: string
  chat :: int
  mail :: string
  login :: string
  password :: string
  folder :: "string option"

record world =
  imap_open :: "string \<Rightarrow> py_exception option"
  imap_login :: "string \<Rightarrow> string \<Rightarrow> py_exception option"
  imap_list :: "py_exception + (string \<times> bytes option list)"
  imap_select :: "string option \<Rightarrow> py_exception option"
  imap_search :: "py_exception + (string \<times> bytes option list)"
  imap_fetch :: "bytes \<Rightarrow> py_exception + (string \<times> fetch_item list)"
  imap_close :: "py_exception option"
  imap_logout :: "py_exception option"
  walk :: "bytes \<Rightarrow> mime_part list"
  utf7_decode :: "bytes \<Rightarrow> string"
  send_message :: "int \<Rightarrow> string \<Rightarrow> py_exception option"
  stdin_line :: string

datatype event =
    Open string
  | Login string string
  | List
  | Print string
  | Input string
  | Select "string option"
  | Search
  | Fetch bytes
  | Send int string
  | Close
  | Logout

text \<open>\<open>create_imap_connection(storage)\<close>: the connection is made, then the login.\<close>

definition create_imap_connection :: "world \<Rightarrow> storage \<Rightarrow> event list \<times> py_exception option" where
  "create_imap_connection w st =
     (case imap_open w (mail st) of
        Some x \<Rightarrow> ([Open (mail st)], Some x)
      | None \<Rightarrow> ([Open (mail st), Login (login st) (password st)],
                 imap_login w (login st) (password st)))"

text \<open>
  \<open>imap_trace(func, storage)\<close>: the wrapper around a body \<open>func\<close>. An exception of the
  connection leaves before the \<open>try\<close>. Otherwise the \<open>finally\<close> block runs after the body,
  however the body ended: \<open>close\<close> inside its own \<open>try\<close> with a bare \<open>except\<close>, then
  \<open>logout\<close>, whose exception replaces the body's.
\<close>

definition imap_trace ::
  "(world \<Rightarrow> storage \<Rightarrow> event list \<times> (py_exception + 'a)) \<Rightarrow> world \<Rightarrow> storage \<Rightarrow>
   event list \<times> (py_exception + 'a)" where
  "imap_trace func w st =
     (case create_imap_connection w st of
        (tr0, Some x) \<Rightarrow> (tr0, Inl x)
      | (tr0, None) \<Rightarrow>
          (let (tr, r) = func w st;
               closing = (case imap_close w of Some x \<Rightarrow> [Close] | None \<Rightarrow> [Close])
           in (tr0 @ tr @ closing @ [Logout],
               case imap_logout w of Some x \<Rightarrow> Inl x | None \<Rightarrow> r)))"

text \<open>
  The dictionary comprehension over the parts of a message: a later part with the same
  content type overwrites an earlier one.
\<close>

definition email_message :: "mime_part list \<Rightarrow> (string \<rightharpoonup> string)" where
  "email_message parts = fold (\<lambda>p m. m(content_type p \<mapsto> payload p)) parts Map.empty"

text \<open>\<open>data[0][1]\<close> of a fetch answer, as the argument of the parser.\<close>

definition fetched_raw :: "fetch_item list \<Rightarrow> py_exception + bytes" where
  "fetched_raw data =
     (case data of
        [] \<Rightarrow> Inl IndexError
      | Pair h b # _ \<Rightarrow> Inr b
      | Raw s # _ \<Rightarrow> (if length s < 2 then Inl IndexError else Inl AttributeError)
      | NoneItem # _ \<Rightarrow> Inl TypeError)"

text \<open>The loop of \<open>scan_email\<close> over the identifiers.\<close>

fun scan_loop :: "world \<Rightarrow> int \<Rightarrow> bytes list \<Rightarrow> event list \<times> (py_exception + unit)" where
  "scan_loop w c [] = ([], Inr ())"
| "scan_loop w c (i # ids) =
     (case imap_fetch w i of
        Inl x \<Rightarrow> ([Fetch i], Inl x)
      | Inr (result, data) \<Rightarrow>
          (case fetched_raw data of
             Inl x \<Rightarrow> ([Fetch i], Inl x)
           | Inr raw \<Rightarrow>
               (case email_message (walk w raw) ''text/plain'' of
                  None \<Rightarrow> ([Fetch i], Inl (KeyError ''text/plain''))
                | Some body \<Rightarrow>
                    (case send_message w c body of
                       Some x \<Rightarrow> ([Fetch i, Send c body], Inl x)
                     | None \<Rightarrow>
                         (let (tr, r) = scan_loop w c ids
                          in (Fetch i # Send c body # tr, r))))))"

text \<open>\<open>scan_email(mail, storage, context)\<close>, with \<open>c\<close> the chat of the job.\<close>

definition scan_email :: "int \<Rightarrow> world \<Rightarrow> storage \<Rightarrow> event list \<times> (py_exception + unit)" where
  "scan_email c w st =
     (case imap_select w (folder st) of
        Some x \<Rightarrow> ([Select (folder st)], Inl x)
      | None \<Rightarrow>
          (case imap_search w of
             Inl x \<Rightarrow> ([Select (folder st), Search], Inl x)
           | Inr (result, data) \<Rightarrow>
               if result = ''OK'' then
                 (case data of
                    [] \<Rightarrow> ([Select (folder st), Search], Inl IndexError)
                  | None # _ \<Rightarrow> ([Select (folder st), Search], Inl AttributeError)
                  | Some d # _ \<Rightarrow>
                      (let (tr, r) = scan_loop w c (py_split d)
                       in (Select (folder st) # Search # tr, r)))
               else
                 ([Select (folder st), Search, Send c result],
                  case send_message w c result of Some x \<Rightarrow> Inl x | None \<Rightarrow> Inr ())))"

text \<open>
  The loop of \<open>select_email_folder\<close> over the numbered folders. \<open>f.decode()\<close> is the
  identity on the ASCII lines a server sends for its folders.
\<close>

fun enum_loop ::
  "world \<Rightarrow> int \<Rightarrow> bytes option list \<Rightarrow> (int \<rightharpoonup> string) \<Rightarrow>
   event list \<times> (py_exception + (int \<rightharpoonup> string))" where
  "enum_loop w num [] m = ([], Inr m)"
| "enum_loop w num (None # fs) m = ([], Inl AttributeError)"
| "enum_loop w num (Some f # fs) m =
     (case py_split_on '' \"/\" '' f of
        _ # l1 # _ \<Rightarrow>
          (let (tr, r) = enum_loop w (num + 1) fs (m(num \<mapsto> l1))
           in (Print (py_str num @ ''. '' @ utf7_decode w f) # tr, r))
      | _ \<Rightarrow> ([], Inl IndexError))"

text \<open>\<open>select_email_folder(mail, storage)\<close>: the storage afterwards is the value.\<close>

definition select_email_folder :: "world \<Rightarrow> storage \<Rightarrow> event list \<times> (py_exception + storage)" where
  "select_email_folder w st =
     (case imap_list w of
        Inl x \<Rightarrow> ([List], Inl x)
      | Inr (result, folders) \<Rightarrow>
          (let (tr, r) = (if result = ''OK'' then enum_loop w 1 folders Map.empty
                          else ([], Inr Map.empty))
           in case r of
                Inl x \<Rightarrow> (List # tr, Inl x)
              | Inr enum_folders \<Rightarrow>
                  (case py_int (stdin_line w) of
                     None \<Rightarrow> (List # tr @ [Input ''Select number of folder:''], Inl ValueError)
                   | Some n \<Rightarrow>
                       (List # tr @ [Input ''Select number of folder:''],
                        Inr (st\<lparr>folder := Some (case enum_folders n of
                                                   None \<Rightarrow> ''INBOX''
                                                 | Some f \<Rightarrow> f)\<rparr>)))))"

text \<open>The two lines of \<open>main\<close> that ask for the folder when the flag was not given.\<close>

definition main_folder :: "world \<Rightarrow> storage \<Rightarrow> event list \<times> (py_exception + storage)" where
  "main_folder w st =
     (if folder st = None then imap_trace select_email_folder w st else ([], Inr st))"

section \<open>What a run shows\<close>

text \<open>
  The body that one iteration of the loop extracts for an identifier: the fetch, the parse
  and the lookup of \<open>text/plain\<close>, with the exception of the first step that fails.
\<close>

definition plain_body :: "world \<Rightarrow> bytes \<Rightarrow> py_exception + string" where
  "plain_body w i =
     (case imap_fetch w i of
        Inl x \<Rightarrow> Inl x
      | Inr (result, data) \<Rightarrow>
          (case fetched_raw data of
             Inl x \<Rightarrow> Inl x
           | Inr raw \<Rightarrow>
               (case email_message (walk w raw) ''text/plain'' of
                  None \<Rightarrow> Inl (KeyError ''text/plain'')
                | Some body \<Rightarrow> Inr body)))"

text \<open>The texts sent to the chat and the identifiers fetched, in the order of a run.\<close>

fun sent_texts :: "event list \<Rightarrow> string list" where
  "sent_texts [] = []"
| "sent_texts (Send c t # es) = t # sent_texts es"
| "sent_texts (e # es) = sent_texts es"

fun fetched_ids :: "event list \<Rightarrow> bytes list" where
  "fetched_ids [] = []"
| "fetched_ids (Fetch i # es) = i # fetched_ids es"
| "fetched_ids (e # es) = fetched_ids es"

text \<open>The same server with the status of every fetch answer replaced.\<close>

definition with_fetch_status :: "(bytes \<Rightarrow> string \<Rightarrow> string) \<Rightarrow> world \<Rightarrow> world" where
  "with_fetch_status f w =
     w\<lparr>imap_fetch := (\<lambda>i. case imap_fetch w i of
                              Inl x \<Rightarrow> Inl x
                            | Inr (result, data) \<Rightarrow> Inr (f i result, data))\<rparr>"

section \<open>An example mailbox\<close>

text \<open>
  A server with three unseen messages, where the raw text of a message is its identifier.
  Message \<open>2\<close> is HTML only, message \<open>3\<close> has two plain-text parts, closing the folder
  fails, and the line typed at the prompt is not a number.
\<close>

definition example_storage :: storage where
  "example_storage =
     \<lparr>token = ''token'', chat = 7, mail = ''imap.example.org'', login = ''user'',
      password = ''secret'', folder = Some ''INBOX''\<rparr>"

definition example_world :: world where
  "example_world =
     \<lparr>imap_open = (\<lambda>h. None),
      imap_login = (\<lambda>u p. None),
      imap_list = Inr (''OK'', [Some ''(HasNoChildren) \"/\" \"INBOX\"'',
                                Some ''(HasNoChildren) \"/\" \"Work\"'']),
      imap_select = (\<lambda>f. None),
      imap_search = Inr (''OK'', [Some ''1 2 3'']),
      imap_fetch = (\<lambda>i. Inr (''OK'', [Pair ''RFC822'' i, Raw '')''])),
      imap_close = Some (LibraryError ''close''),
      imap_logout = None,
      walk = (\<lambda>raw.
        if raw = ''2'' then
          [\<lparr>content_type = ''multipart/alternative'', payload = []\<rparr>,
           \<lparr>content_type = ''text/html'', payload = ''<p>two</p>''\<rparr>]
        else if raw = ''3'' then
          [\<lparr>content_type = ''multipart/mixed'', payload = []\<rparr>,
           \<lparr>content_type = ''text/plain'', payload = ''three''\<rparr>,
           \<lparr>content_type = ''text/plain'', payload = ''signature''\<rparr>]
        else [\<lparr>content_type = ''text/plain'', payload = ''body '' @ raw\<rparr>]),
      utf7_decode = (\<lambda>b. b),
      send_message = (\<lambda>c t. None),
      stdin_line = ''abc''\<rparr>"

section \<open>Lemmas about the job queue\<close>

lemma fold_schedule_removal:
  "\<forall>y\<in>set ys. \<not> P y \<Longrightarrow>
   fold schedule_removal (filter P xs) (ys @ xs) = ys @ filter (\<lambda>j. \<not> P j) xs"
proof (induction xs arbitrary: ys)
  case Nil
  then show ?case by simp
next
  case (Cons x xs)
  show ?case
  proof (cases "P x")
    case True
    with Cons.prems have "x \<notin> set ys" by auto
    then have "remove1 x (ys @ x # xs) = ys @ xs"
      by (simp add: remove1_append)
    with True Cons.IH [OF Cons.prems] show ?thesis
      by (simp add: schedule_removal_def)
  next
    case False
    with Cons.prems have "\<forall>y\<in>set (ys @ [x]). \<not> P y" by auto
    from Cons.IH [OF this] False show ?thesis by simp
  qed
qed

lemma remove_job_if_exists_queue:
  "snd (remove_job_if_exists nm q) = filter (\<lambda>j. name j \<noteq> nm) q"
proof (cases "get_jobs_by_name nm q = []")
  case True
  then have "filter (\<lambda>j. name j \<noteq> nm) q = q"
    by (auto simp: get_jobs_by_name_def filter_empty_conv filter_id_conv)
  with True show ?thesis by (simp add: remove_job_if_exists_def)
next
  case False
  have "fold schedule_removal (filter (\<lambda>j. name j = nm) q) ([] @ q)
        = [] @ filter (\<lambda>j. \<not> name j = nm) q"
    by (rule fold_schedule_removal) simp
  with False show ?thesis
    by (simp add: remove_job_if_exists_def get_jobs_by_name_def)
qed

lemma remove_job_if_exists_flag:
  "fst (remove_job_if_exists nm q) = (get_jobs_by_name nm q \<noteq> [])"
  by (simp add: remove_job_if_exists_def Let_def)

lemma remove_job_if_exists_eq:
  "remove_job_if_exists nm q = (get_jobs_by_name nm q \<noteq> [], filter (\<lambda>j. name j \<noteq> nm) q)"
  using remove_job_if_exists_queue [of nm q] remove_job_if_exists_flag [of nm q]
  by (cases "remove_job_if_exists nm q") simp

lemma set_timer_installs:
  assumes "py_int a = Some n" and "0 \<le> n" and "n \<le> horizon"
  shows "set_timer horizon cb chat_id (a # rest) q =
           (filter (\<lambda>j. name j \<noteq> py_str chat_id) q @
              [\<lparr>name = py_str chat_id, interval = (if n = 0 then 1 else n),
                job_context = chat_id, callback = cb\<rparr>],
            [''Timer successfully set!'' @
               (if get_jobs_by_name (py_str chat_id) q \<noteq> [] then '' Old one was removed.''
                else '''')],
            None)"
  using assms
  by (simp add: set_timer_def remove_job_if_exists_eq run_repeating_def)

lemma set_timer_overflow:
  assumes "py_int a = Some n" and "0 \<le> n" and "horizon < n"
  shows "set_timer horizon cb chat_id (a # rest) q =
           (filter (\<lambda>j. name j \<noteq> py_str chat_id) q, [], Some OverflowError)"
  using assms
  by (simp add: set_timer_def remove_job_if_exists_eq run_repeating_def)

lemma get_jobs_by_name_removed:
  "length (get_jobs_by_name k (filter (\<lambda>j. name j \<noteq> nm) q)) \<le> length (get_jobs_by_name k q)"
proof -
  have "get_jobs_by_name k (filter (\<lambda>j. name j \<noteq> nm) q) =
        filter (\<lambda>j. name j \<noteq> nm) (get_jobs_by_name k q)"
    by (auto simp: get_jobs_by_name_def intro: filter_cong)
  then show ?thesis by simp
qed

lemma set_timer_queue_cases:
  "fst (set_timer horizon cb chat_id args q) = q
   \<or> fst (set_timer horizon cb chat_id args q) = filter (\<lambda>j. name j \<noteq> py_str chat_id) q
   \<or> (\<exists>n. fst (set_timer horizon cb chat_id args q) =
          filter (\<lambda>j. name j \<noteq> py_str chat_id) q @
            [\<lparr>name = py_str chat_id, interval = n, job_context = chat_id, callback = cb\<rparr>])"
  by (auto simp: set_timer_def remove_job_if_exists_eq run_repeating_def
           split: list.splits option.splits)

lemma set_timer_at_most_one:
  assumes "\<forall>k. length (get_jobs_by_name k q) \<le> 1"
  shows "length (get_jobs_by_name k (fst (set_timer horizon cb chat_id args q))) \<le> 1"
proof -
  let ?key = "py_str chat_id"
  let ?rest = "filter (\<lambda>j. name j \<noteq> ?key) q"
  have rest: "length (get_jobs_by_name k ?rest) \<le> 1"
    using get_jobs_by_name_removed [of k ?key q] assms
    by (meson le_trans)
  have none: "get_jobs_by_name ?key ?rest = []"
    by (simp add: get_jobs_by_name_def)
  have added: "length (get_jobs_by_name k
      (?rest @ [\<lparr>name = ?key, interval = n, job_context = chat_id, callback = cb\<rparr>])) \<le> 1" for n
  proof (cases "k = ?key")
    case True
    with none show ?thesis by (simp add: get_jobs_by_name_def)
  next
    case False
    with rest show ?thesis by (simp add: get_jobs_by_name_def)
  qed
  from set_timer_queue_cases [of horizon cb chat_id args q] assms rest added
  show ?thesis by (elim disjE exE) simp_all
qed

section \<open>Lemmas about the scan\<close>

lemma fold_upd_lookup:
  "fold (\<lambda>p m. m(content_type p \<mapsto> payload p)) parts m k =
     (if filter (\<lambda>p. content_type p = k) parts = [] then m k
      else Some (payload (last (filter (\<lambda>p. content_type p = k) parts))))"
  by (induction parts arbitrary: m) auto

lemma email_message_lookup:
  "email_message parts k =
     (if filter (\<lambda>p. content_type p = k) parts = [] then None
      else Some (payload (last (filter (\<lambda>p. content_type p = k) parts))))"
  by (simp add: email_message_def fold_upd_lookup)

lemma scan_loop_step:
  "scan_loop w c (i # ids) =
     (case plain_body w i of
        Inl x \<Rightarrow> ([Fetch i], Inl x)
      | Inr body \<Rightarrow>
          (case send_message w c body of
             Some x \<Rightarrow> ([Fetch i, Send c body], Inl x)
           | None \<Rightarrow> (Fetch i # Send c body # fst (scan_loop w c ids), snd (scan_loop w c ids))))"
  by (simp add: plain_body_def split: sum.splits option.splits prod.splits)

lemma scan_loop_all:
  "\<forall>i\<in>set ids. plain_body w i = Inr (body i) \<and> send_message w c (body i) = None \<Longrightarrow>
   scan_loop w c ids = (concat (map (\<lambda>i. [Fetch i, Send c (body i)]) ids), Inr ())"
proof (induction ids)
  case Nil
  then show ?case by simp
next
  case (Cons i ids)
  then show ?case by (simp add: scan_loop_step del: scan_loop.simps)
qed

lemma scan_loop_append:
  "\<forall>i\<in>set pre. plain_body w i = Inr (body i) \<and> send_message w c (body i) = None \<Longrightarrow>
   scan_loop w c (pre @ ids) =
     (concat (map (\<lambda>i. [Fetch i, Send c (body i)]) pre) @ fst (scan_loop w c ids),
      snd (scan_loop w c ids))"
proof (induction pre)
  case Nil
  then show ?case by simp
next
  case (Cons i pre)
  then show ?case by (simp add: scan_loop_step del: scan_loop.simps)
qed

lemma sent_texts_append: "sent_texts (xs @ ys) = sent_texts xs @ sent_texts ys"
  by (induction xs rule: sent_texts.induct) auto

lemma fetched_ids_append: "fetched_ids (xs @ ys) = fetched_ids xs @ fetched_ids ys"
  by (induction xs rule: fetched_ids.induct) auto

lemma sent_texts_rounds:
  "sent_texts (concat (map (\<lambda>i. [Fetch i, Send c (body i)]) ids)) = map body ids"
  by (induction ids) auto

lemma fetched_ids_rounds:
  "fetched_ids (concat (map (\<lambda>i. [Fetch i, Send c (body i)]) ids)) = ids"
  by (induction ids) auto

lemma scan_loop_no_release:
  "Close \<notin> set (fst (scan_loop w c ids)) \<and> Logout \<notin> set (fst (scan_loop w c ids))"
  by (induction ids) (auto split: sum.splits option.splits prod.splits)

lemma scan_email_found:
  "imap_select w (folder st) = None \<Longrightarrow> imap_search w = Inr (''OK'', Some d # ds) \<Longrightarrow>
   scan_email c w st =
     (Select (folder st) # Search # fst (scan_loop w c (py_split d)),
      snd (scan_loop w c (py_split d)))"
  by (simp add: scan_email_def split: prod.splits)

lemma scan_email_no_release:
  "Close \<notin> set (fst (scan_email c w st)) \<and> Logout \<notin> set (fst (scan_email c w st))"
proof (cases "\<exists>d ds. imap_select w (folder st) = None \<and> imap_search w = Inr (''OK'', Some d # ds)")
  case True
  then obtain d ds where "imap_select w (folder st) = None"
    and "imap_search w = Inr (''OK'', Some d # ds)" by blast
  then show ?thesis
    using scan_loop_no_release [of w c "py_split d"] by (simp add: scan_email_found)
next
  case False
  then show ?thesis
    by (auto simp: scan_email_def split: sum.splits option.splits prod.splits list.splits)
qed

lemma create_imap_connection_no_release:
  "Close \<notin> set (fst (create_imap_connection w st)) \<and>
   Logout \<notin> set (fst (create_imap_connection w st))"
  by (auto simp: create_imap_connection_def split: option.splits)

lemma with_fetch_status_loop:
  "scan_loop (with_fetch_status f w) c ids = scan_loop w c ids"
  by (induction ids) (auto simp: with_fetch_status_def split: sum.splits option.splits prod.splits)

section \<open>The timer commands\<close>

text \<open>
  Claim C1, as amended. When the argument of \<open>/set\<close> reads as an integer \<open>n\<close> that is not
  negative and not beyond what the scheduler can schedule (\<open>n \<le> horizon\<close>), \<open>set_timer\<close>
  first takes every job named after the chat out of the queue (no job of that name is left
  at that point), then adds one job, and ends without an exception; afterwards the jobs of
  that name are exactly the new one, with interval \<open>n\<close> (one second when \<open>n = 0\<close>), and the
  jobs of every other name are as before. For every argument at all, a queue with at most
  one job per name stays so, after the removal and at the end.
\<close>

theorem set_timer_one_entry_per_key:
  "(py_int a = Some n \<and> 0 \<le> n \<and> n \<le> horizon \<longrightarrow>
      get_jobs_by_name (py_str chat_id) (snd (remove_job_if_exists (py_str chat_id) q)) = []
    \<and> run_repeating horizon cb n chat_id (py_str chat_id)
          (snd (remove_job_if_exists (py_str chat_id) q)) =
        Inr (fst (set_timer horizon cb chat_id (a # rest) q))
    \<and> get_jobs_by_name (py_str chat_id) (fst (set_timer horizon cb chat_id (a # rest) q)) =
        [\<lparr>name = py_str chat_id, interval = (if n = 0 then 1 else n),
          job_context = chat_id, callback = cb\<rparr>]
    \<and> snd (snd (set_timer horizon cb chat_id (a # rest) q)) = None
    \<and> (\<forall>k. k \<noteq> py_str chat_id \<longrightarrow>
          get_jobs_by_name k (fst (set_timer horizon cb chat_id (a # rest) q)) =
          get_jobs_by_name k q))
   \<and> ((\<forall>k. length (get_jobs_by_name k q) \<le> 1) \<longrightarrow>
        (\<forall>k. length (get_jobs_by_name k (snd (remove_job_if_exists (py_str chat_id) q))) \<le> 1)
      \<and> (\<forall>k. length (get_jobs_by_name k (fst (set_timer horizon cb chat_id args q))) \<le> 1))"
proof (intro conjI impI)
  let ?key = "py_str chat_id"
  let ?new = "\<lparr>name = ?key, interval = (if n = 0 then 1 else n), job_context = chat_id,
               callback = cb\<rparr>"
  let ?q' = "fst (set_timer horizon cb chat_id (a # rest) q)"
  assume ok: "py_int a = Some n \<and> 0 \<le> n \<and> n \<le> horizon"
  then have h: "py_int a = Some n" "0 \<le> n" "n \<le> horizon" by simp_all
  have q': "?q' = filter (\<lambda>j. name j \<noteq> ?key) q @ [?new]"
    by (simp add: set_timer_installs [OF h])
  show "get_jobs_by_name ?key (snd (remove_job_if_exists ?key q)) = []"
    by (simp add: remove_job_if_exists_queue get_jobs_by_name_def)
  show "run_repeating horizon cb n chat_id ?key (snd (remove_job_if_exists ?key q)) = Inr ?q'"
    using h(3) by (simp add: q' remove_job_if_exists_queue run_repeating_def)
  show "get_jobs_by_name ?key ?q' = [?new]"
    by (simp add: q' get_jobs_by_name_def)
  show "snd (snd (set_timer horizon cb chat_id (a # rest) q)) = None"
    by (simp add: set_timer_installs [OF h])
  show "\<forall>k. k \<noteq> ?key \<longrightarrow> get_jobs_by_name k ?q' = get_jobs_by_name k q"
  proof (intro allI impI)
    fix k assume k: "k \<noteq> ?key"
    have "filter (\<lambda>j. name j = k) (filter (\<lambda>j. name j \<noteq> ?key) q) = filter (\<lambda>j. name j = k) q"
      using k by (auto intro: filter_cong)
    with k show "get_jobs_by_name k ?q' = get_jobs_by_name k q"
      by (simp add: q' get_jobs_by_name_def)
  qed
next
  assume inv: "\<forall>k. length (get_jobs_by_name k q) \<le> 1"
  show "\<forall>k. length (get_jobs_by_name k (snd (remove_job_if_exists (py_str chat_id) q))) \<le> 1"
  proof
    fix k
    from get_jobs_by_name_removed [of k "py_str chat_id" q] inv
    show "length (get_jobs_by_name k (snd (remove_job_if_exists (py_str chat_id) q))) \<le> 1"
      unfolding remove_job_if_exists_queue by (meson le_trans)
  qed
  show "\<forall>k. length (get_jobs_by_name k (fst (set_timer horizon cb chat_id args q))) \<le> 1"
    using set_timer_at_most_one [OF inv] by blast
qed

theorem set_timer_one_entry_per_key_witness:
  "py_int ''30'' = Some 30 \<and> (0::int) \<le> 30 \<and> (30::int) \<le> 251000000000
   \<and> get_jobs_by_name (py_str 7)
        (fst (set_timer 251000000000 () 7 [''30'']
           [\<lparr>name = ''7'', interval = 10, job_context = 7, callback = ()\<rparr>,
            \<lparr>name = ''7'', interval = 60, job_context = 7, callback = ()\<rparr>,
            \<lparr>name = ''8'', interval = 5, job_context = 8, callback = ()\<rparr>])) =
      [\<lparr>name = ''7'', interval = 30, job_context = 7, callback = ()\<rparr>]
   \<and> get_jobs_by_name ''8''
        (fst (set_timer 251000000000 () 7 [''30'']
           [\<lparr>name = ''7'', interval = 10, job_context = 7, callback = ()\<rparr>,
            \<lparr>name = ''7'', interval = 60, job_context = 7, callback = ()\<rparr>,
            \<lparr>name = ''8'', interval = 5, job_context = 8, callback = ()\<rparr>])) =
      [\<lparr>name = ''8'', interval = 5, job_context = 8, callback = ()\<rparr>]
   \<and> length (get_jobs_by_name ''8'' [\<lparr>name = ''8'', interval = 5, job_context = 8, callback = ()\<rparr>]) \<le> 1
   \<and> length (get_jobs_by_name ''8''
        (fst (set_timer 251000000000 () 8 [''1000000000000'']
           [\<lparr>name = ''8'', interval = 5, job_context = 8, callback = ()\<rparr>]))) \<le> 1"
proof -
  have h1: "py_int ''30'' = Some 30" by code_simp
  have h2: "(0::int) \<le> 30" by simp
  have h3: "(30::int) \<le> 251000000000" by simp
  have k: "py_str 7 = ''7''" by code_simp
  let ?q = "[\<lparr>name = ''7'', interval = 10, job_context = 7, callback = ()\<rparr>,
            \<lparr>name = ''7'', interval = 60, job_context = 7, callback = ()\<rparr>,
            \<lparr>name = ''8'', interval = 5, job_context = 8, callback = ()\<rparr>]"
  let ?p = "[\<lparr>name = ''8'', interval = 5, job_context = 8, callback = ()\<rparr>]"
  note t = set_timer_one_entry_per_key
    [of "''30''" 30 251000000000 7 ?q "()" "[]", THEN conjunct1, THEN mp, OF conjI,
     OF h1 conjI, OF h2 h3]
  have z: "(if (30::int) = 0 then 1 else 30) = 30" by simp
  have a: "get_jobs_by_name (py_str 7) (fst (set_timer 251000000000 () 7 [''30''] ?q)) =
             [\<lparr>name = ''7'', interval = 30, job_context = 7, callback = ()\<rparr>]"
    using t [THEN conjunct2, THEN conjunct2, THEN conjunct1] unfolding k z .
  have ne: "''8'' \<noteq> py_str 7" by (simp add: k)
  have old: "get_jobs_by_name ''8'' ?q = ?p"
    by (simp add: get_jobs_by_name_def)
  have b: "get_jobs_by_name ''8'' (fst (set_timer 251000000000 () 7 [''30''] ?q)) = ?p"
    using t [THEN conjunct2, THEN conjunct2, THEN conjunct2, THEN conjunct2, THEN spec,
             THEN mp, OF ne] unfolding old .
  have one: "\<forall>k. length (get_jobs_by_name k ?p) \<le> 1"
    by (simp add: get_jobs_by_name_def)
  have c: "length (get_jobs_by_name ''8'' ?p) \<le> 1"
    using one by (rule spec)
  have d: "length (get_jobs_by_name ''8''
        (fst (set_timer 251000000000 () 8 [''1000000000000''] ?p))) \<le> 1"
    using set_timer_one_entry_per_key
      [of _ _ 251000000000 8 ?p "()" _ "[''1000000000000'']", THEN conjunct2, THEN mp, OF one,
       THEN conjunct2, THEN spec] .
  from h1 h2 h3 a b c d show ?thesis by (intro conjI)
qed

theorem set_timer_one_entry_per_key_counterexample:
  "py_int ''1000000000000'' = Some 1000000000000 \<and> (0::int) \<le> 1000000000000
   \<and> set_timer 251000000000 () 7 [''1000000000000'']
        [\<lparr>name = ''7'', interval = 10, job_context = 7, callback = ()\<rparr>] =
       ([], [], Some OverflowError)
   \<and> get_jobs_by_name (py_str 7)
        (fst (set_timer 251000000000 () 7 [''1000000000000'']
           [\<lparr>name = ''7'', interval = 10, job_context = 7, callback = ()\<rparr>])) = []"
proof -
  let ?q = "[\<lparr>name = ''7'', interval = 10, job_context = 7, callback = ()\<rparr>]"
  have h1: "py_int ''1000000000000'' = Some 1000000000000"
    by (simp add: py_int_def strip_def str_space_def is_digit_def digit_val_def)
  have h2: "(0::int) \<le> 1000000000000" by simp
  have h3: "(251000000000::int) < 1000000000000" by simp
  have k: "py_str 7 = ''7''" by code_simp
  have r: "set_timer 251000000000 () 7 [''1000000000000''] ?q = ([], [], Some OverflowError)"
    using set_timer_overflow [OF h1 h2 h3, of "()" 7 "[]" ?q] by (simp add: k)
  have e: "get_jobs_by_name (py_str 7)
             (fst (set_timer 251000000000 () 7 [''1000000000000''] ?q)) = []"
    by (simp add: r get_jobs_by_name_def)
  from h1 h2 r e show ?thesis by (intro conjI)
qed



text \<open>
  Claim C6, as amended. After a \<open>/set\<close> with an integer \<open>n\<close> that is not negative and not
  beyond what the scheduler can schedule (\<open>n \<le> horizon\<close>), \<open>unset\<close> leaves no job named
  after the chat (the other jobs stay) and replies that the timer was cancelled; a second
  \<open>unset\<close> changes nothing and replies that there is no active timer.
\<close>

theorem set_then_unset:
  assumes "py_int a = Some n" and "0 \<le> n" and "n \<le> horizon"
  shows "get_jobs_by_name (py_str chat_id)
           (fst (unset chat_id (fst (set_timer horizon cb chat_id (a # rest) q)))) = []
       \<and> fst (unset chat_id (fst (set_timer horizon cb chat_id (a # rest) q))) =
           filter (\<lambda>j. name j \<noteq> py_str chat_id) q
       \<and> snd (unset chat_id (fst (set_timer horizon cb chat_id (a # rest) q))) =
           [''Timer successfully cancelled!'']
       \<and> unset chat_id (fst (unset chat_id (fst (set_timer horizon cb chat_id (a # rest) q)))) =
           (fst (unset chat_id (fst (set_timer horizon cb chat_id (a # rest) q))),
            [''You have no active timer.''])"
proof -
  let ?key = "py_str chat_id"
  let ?q1 = "fst (set_timer horizon cb chat_id (a # rest) q)"
  have unset_eq: "unset chat_id p =
      (filter (\<lambda>j. name j \<noteq> ?key) p,
       [if get_jobs_by_name ?key p \<noteq> [] then ''Timer successfully cancelled!''
        else ''You have no active timer.''])" for p :: "'a job list"
    by (simp add: unset_def remove_job_if_exists_eq)
  have q1: "?q1 = filter (\<lambda>j. name j \<noteq> ?key) q @
                  [\<lparr>name = ?key, interval = (if n = 0 then 1 else n), job_context = chat_id,
                    callback = cb\<rparr>]"
    by (simp add: set_timer_installs [OF assms])
  have q2: "fst (unset chat_id ?q1) = filter (\<lambda>j. name j \<noteq> ?key) q"
    by (simp add: unset_eq q1)
  have r2: "snd (unset chat_id ?q1) = [''Timer successfully cancelled!'']"
    by (simp add: unset_eq q1 get_jobs_by_name_def)
  have none: "get_jobs_by_name ?key (filter (\<lambda>j. name j \<noteq> ?key) q) = []"
    by (simp add: get_jobs_by_name_def)
  have again: "unset chat_id (filter (\<lambda>j. name j \<noteq> ?key) q) =
                 (filter (\<lambda>j. name j \<noteq> ?key) q, [''You have no active timer.''])"
    by (simp add: unset_eq none)
  from q2 r2 none again show ?thesis by simp
qed

theorem set_then_unset_witness:
  "py_int ''30'' = Some 30 \<and> (0::int) \<le> 30 \<and> (30::int) \<le> 251000000000
   \<and> unset 7 (fst (set_timer 251000000000 () 7 [''30'']
        [\<lparr>name = ''8'', interval = 5, job_context = 8, callback = ()\<rparr>])) =
       ([\<lparr>name = ''8'', interval = 5, job_context = 8, callback = ()\<rparr>],
        [''Timer successfully cancelled!''])
   \<and> unset 7 [\<lparr>name = ''8'', interval = 5, job_context = 8, callback = ()\<rparr>] =
       ([\<lparr>name = ''8'', interval = 5, job_context = 8, callback = ()\<rparr>],
        [''You have no active timer.''])"
proof -
  have h1: "py_int ''30'' = Some 30" by code_simp
  have h2: "(0::int) \<le> 30" by simp
  have h3: "(30::int) \<le> 251000000000" by simp
  have k: "py_str 7 = ''7''" by code_simp
  let ?q = "[\<lparr>name = ''8'', interval = 5, job_context = 8, callback = ()\<rparr>]"
  note t = set_then_unset [OF h1 h2 h3, of 7 "()" "[]" ?q]
  have f: "filter (\<lambda>j. name j \<noteq> py_str 7) ?q = ?q"
    by (simp add: k)
  have a: "fst (unset 7 (fst (set_timer 251000000000 () 7 [''30''] ?q))) = ?q"
    using t [THEN conjunct2, THEN conjunct1] unfolding f .
  have b: "snd (unset 7 (fst (set_timer 251000000000 () 7 [''30''] ?q))) =
             [''Timer successfully cancelled!'']"
    using t [THEN conjunct2, THEN conjunct2, THEN conjunct1] .
  have c: "unset 7 ?q = (?q, [''You have no active timer.''])"
    using t [THEN conjunct2, THEN conjunct2, THEN conjunct2] unfolding a .
  have d: "unset 7 (fst (set_timer 251000000000 () 7 [''30''] ?q)) =
             (?q, [''Timer successfully cancelled!''])"
    using a b by (rule prod_eqI [of _ "(?q, [''Timer successfully cancelled!''])", simplified])
  from h1 h2 h3 d c show ?thesis by (intro conjI)
qed

theorem set_then_unset_counterexample:
  "py_int ''1000000000000'' = Some 1000000000000 \<and> (0::int) \<le> 1000000000000
   \<and> set_timer 251000000000 () 7 [''1000000000000'']
        [\<lparr>name = ''7'', interval = 10, job_context = 7, callback = ()\<rparr>] =
       ([], [], Some OverflowError)
   \<and> unset 7 (fst (set_timer 251000000000 () 7 [''1000000000000'']
        [\<lparr>name = ''7'', interval = 10, job_context = 7, callback = ()\<rparr>])) =
       ([], [''You have no active timer.''])"
proof -
  let ?q = "[\<lparr>name = ''7'', interval = 10, job_context = 7, callback = ()\<rparr>]"
  have h1: "py_int ''1000000000000'' = Some 1000000000000"
    by (simp add: py_int_def strip_def str_space_def is_digit_def digit_val_def)
  have h2: "(0::int) \<le> 1000000000000" by simp
  have h3: "(251000000000::int) < 1000000000000" by simp
  have k: "py_str 7 = ''7''" by code_simp
  have r: "set_timer 251000000000 () 7 [''1000000000000''] ?q = ([], [], Some OverflowError)"
    using set_timer_overflow [OF h1 h2 h3, of "()" 7 "[]" ?q] by (simp add: k)
  have u: "unset 7 ([] :: unit job list) = ([], [''You have no active timer.''])"
    by code_simp
  have e: "unset 7 (fst (set_timer 251000000000 () 7 [''1000000000000''] ?q)) =
             ([], [''You have no active timer.''])"
    by (simp add: r u)
  from h1 h2 r e show ?thesis by (intro conjI)
qed

section \<open>The scan cycle\<close>

lemma scan_loop_close_free:
  "scan_loop (w\<lparr>imap_close := k\<rparr>) c ids = scan_loop w c ids"
  by (induction ids) (auto split: sum.splits option.splits prod.splits)

lemma scan_email_close_free:
  "scan_email c (w\<lparr>imap_close := k\<rparr>) st = scan_email c w st"
  by (simp add: scan_email_def scan_loop_close_free
        split: option.splits sum.splits list.splits prod.splits)

lemma imap_trace_connected:
  "create_imap_connection w st = (tr0, None) \<Longrightarrow>
   imap_trace func w st =
     (tr0 @ fst (func w st) @ [Close, Logout],
      case imap_logout w of Some x \<Rightarrow> Inl x | None \<Rightarrow> snd (func w st))"
  by (simp add: imap_trace_def split: prod.splits option.splits)

lemma imap_trace_refused:
  "create_imap_connection w st = (tr0, Some x) \<Longrightarrow> imap_trace func w st = (tr0, Inl x)"
  by (simp add: imap_trace_def)

text \<open>
  Claim C2. When the connection was made, the calls of a scan cycle are those of the
  connection, those of the scan, then \<open>Close\<close> and \<open>Logout\<close>, each of the two exactly
  once, whether the scan returned or raised; the cycle ends with the exception of
  \<open>logout\<close> if it raised and with the scan's own end otherwise. Whatever \<open>close\<close> does
  (its answer \<open>k\<close>) changes nothing. When the connection was not made, neither is called.
\<close>

theorem scan_cycle_releases_session:
  "(create_imap_connection w st = (tr0, None) \<longrightarrow>
      fst (imap_trace (scan_email c) w st) = tr0 @ fst (scan_email c w st) @ [Close, Logout]
    \<and> snd (imap_trace (scan_email c) w st) =
        (case imap_logout w of Some x \<Rightarrow> Inl x | None \<Rightarrow> snd (scan_email c w st))
    \<and> count_list (fst (imap_trace (scan_email c) w st)) Close = 1
    \<and> count_list (fst (imap_trace (scan_email c) w st)) Logout = 1)
   \<and> (create_imap_connection w st = (tr0, Some x) \<longrightarrow>
        imap_trace (scan_email c) w st = (tr0, Inl x)
      \<and> count_list tr0 Close = 0 \<and> count_list tr0 Logout = 0)
   \<and> imap_trace (scan_email c) (w\<lparr>imap_close := k\<rparr>) st = imap_trace (scan_email c) w st"
proof (intro conjI impI)
  assume conn: "create_imap_connection w st = (tr0, None)"
  from create_imap_connection_no_release [of w st] conn
  have tr0: "count_list tr0 Close = 0" "count_list tr0 Logout = 0"
    by (simp_all add: count_list_0_iff)
  from scan_email_no_release [of c w st]
  have body: "count_list (fst (scan_email c w st)) Close = 0"
    "count_list (fst (scan_email c w st)) Logout = 0"
    by (simp_all add: count_list_0_iff)
  show "fst (imap_trace (scan_email c) w st) = tr0 @ fst (scan_email c w st) @ [Close, Logout]"
    by (simp add: imap_trace_connected [OF conn])
  show "snd (imap_trace (scan_email c) w st) =
        (case imap_logout w of Some x \<Rightarrow> Inl x | None \<Rightarrow> snd (scan_email c w st))"
    by (simp add: imap_trace_connected [OF conn])
  show "count_list (fst (imap_trace (scan_email c) w st)) Close = 1"
    by (simp add: imap_trace_connected [OF conn] tr0 body)
  show "count_list (fst (imap_trace (scan_email c) w st)) Logout = 1"
    by (simp add: imap_trace_connected [OF conn] tr0 body)
next
  assume conn: "create_imap_connection w st = (tr0, Some x)"
  show "imap_trace (scan_email c) w st = (tr0, Inl x)"
    by (rule imap_trace_refused [OF conn])
  from create_imap_connection_no_release [of w st] conn
  show "count_list tr0 Close = 0" and "count_list tr0 Logout = 0"
    by (simp_all add: count_list_0_iff)
next
  have same: "create_imap_connection (w\<lparr>imap_close := k\<rparr>) st = create_imap_connection w st"
    by (simp add: create_imap_connection_def split: option.splits)
  obtain tr1 r1 where conn: "create_imap_connection w st = (tr1, r1)"
    by (cases "create_imap_connection w st")
  show "imap_trace (scan_email c) (w\<lparr>imap_close := k\<rparr>) st = imap_trace (scan_email c) w st"
  proof (cases r1)
    case None
    with conn same have "create_imap_connection (w\<lparr>imap_close := k\<rparr>) st = (tr1, None)"
      and "create_imap_connection w st = (tr1, None)" by simp_all
    then show ?thesis
      by (simp add: imap_trace_connected scan_email_close_free split: option.splits)
  next
    case (Some y)
    with conn same have "create_imap_connection (w\<lparr>imap_close := k\<rparr>) st = (tr1, Some y)"
      and "create_imap_connection w st = (tr1, Some y)" by simp_all
    then show ?thesis
      by (simp add: imap_trace_refused)
  qed
qed

theorem scan_cycle_releases_session_witness:
  "create_imap_connection example_world example_storage =
     ([Open ''imap.example.org'', Login ''user'' ''secret''], None)
   \<and> imap_close example_world = Some (LibraryError ''close'')
   \<and> imap_trace (scan_email 7) example_world example_storage =
       ([Open ''imap.example.org'', Login ''user'' ''secret'', Select (Some ''INBOX''), Search,
         Fetch ''1'', Send 7 ''body 1'', Fetch ''2'', Close, Logout],
        Inl (KeyError ''text/plain''))
   \<and> count_list (fst (imap_trace (scan_email 7) example_world example_storage)) Close = 1
   \<and> create_imap_connection (example_world\<lparr>imap_open := \<lambda>h. Some (LibraryError ''refused'')\<rparr>)
         example_storage = ([Open ''imap.example.org''], Some (LibraryError ''refused''))
   \<and> imap_trace (scan_email 7) (example_world\<lparr>imap_open := \<lambda>h. Some (LibraryError ''refused'')\<rparr>)
         example_storage = ([Open ''imap.example.org''], Inl (LibraryError ''refused''))"
proof -
  let ?tr0 = "[Open ''imap.example.org'', Login ''user'' ''secret'']"
  let ?w = "example_world\<lparr>imap_open := \<lambda>h. Some (LibraryError ''refused'')\<rparr>"
  have conn: "create_imap_connection example_world example_storage = (?tr0, None)"
    by code_simp
  have cl: "imap_close example_world = Some (LibraryError ''close'')"
    by code_simp
  have lo: "imap_logout example_world = None"
    by code_simp
  have scan: "scan_email 7 example_world example_storage =
     ([Select (Some ''INBOX''), Search, Fetch ''1'', Send 7 ''body 1'', Fetch ''2''],
      Inl (KeyError ''text/plain''))"
    by code_simp
  have refused: "create_imap_connection ?w example_storage =
      ([Open ''imap.example.org''], Some (LibraryError ''refused''))"
    by code_simp
  note ok = scan_cycle_releases_session
    [of example_world example_storage ?tr0 7, THEN conjunct1, THEN mp, OF conn]
  have a: "fst (imap_trace (scan_email 7) example_world example_storage) =
       [Open ''imap.example.org'', Login ''user'' ''secret'', Select (Some ''INBOX''), Search,
         Fetch ''1'', Send 7 ''body 1'', Fetch ''2'', Close, Logout]"
    using ok [THEN conjunct1] by (simp add: scan)
  have b: "snd (imap_trace (scan_email 7) example_world example_storage) =
       Inl (KeyError ''text/plain'')"
    using ok [THEN conjunct2, THEN conjunct1] by (simp add: scan lo)
  have c: "count_list (fst (imap_trace (scan_email 7) example_world example_storage)) Close = 1"
    using ok [THEN conjunct2, THEN conjunct2, THEN conjunct1] .
  have d: "imap_trace (scan_email 7) ?w example_storage =
      ([Open ''imap.example.org''], Inl (LibraryError ''refused''))"
    using scan_cycle_releases_session
      [of ?w example_storage "[Open ''imap.example.org'']" 7 "LibraryError ''refused''",
       THEN conjunct2, THEN conjunct1, THEN mp, OF refused, THEN conjunct1] .
  have e: "imap_trace (scan_email 7) example_world example_storage =
       ([Open ''imap.example.org'', Login ''user'' ''secret'', Select (Some ''INBOX''), Search,
         Fetch ''1'', Send 7 ''body 1'', Fetch ''2'', Close, Logout],
        Inl (KeyError ''text/plain''))"
    using a b by (simp add: prod_eq_iff)
  from conn cl e c refused d show ?thesis by (intro conjI)
qed

text \<open>
  Claim C5. When the search answers with a status other than \<open>OK\<close>, the scan sends that
  status to the chat and nothing else: no message is fetched.
\<close>

theorem search_failure_is_forwarded:
  assumes "imap_select w (folder st) = None"
      and "imap_search w = Inr (result, data)"
      and "result \<noteq> ''OK''"
  shows "scan_email c w st =
           ([Select (folder st), Search, Send c result],
            case send_message w c result of Some x \<Rightarrow> Inl x | None \<Rightarrow> Inr ())
       \<and> sent_texts (fst (scan_email c w st)) = [result]
       \<and> fetched_ids (fst (scan_email c w st)) = []"
  using assms by (simp add: scan_email_def)

theorem search_failure_is_forwarded_witness:
  "imap_select (example_world\<lparr>imap_search := Inr (''NO'', [Some ''SEARCH failed''])\<rparr>)
      (folder example_storage) = None
   \<and> imap_search (example_world\<lparr>imap_search := Inr (''NO'', [Some ''SEARCH failed''])\<rparr>) =
       Inr (''NO'', [Some ''SEARCH failed''])
   \<and> ''NO'' \<noteq> ''OK''
   \<and> scan_email 7 (example_world\<lparr>imap_search := Inr (''NO'', [Some ''SEARCH failed''])\<rparr>)
        example_storage = ([Select (Some ''INBOX''), Search, Send 7 ''NO''], Inr ())"
proof -
  let ?w = "example_world\<lparr>imap_search := Inr (''NO'', [Some ''SEARCH failed''])\<rparr>"
  have h1: "imap_select ?w (folder example_storage) = None" by code_simp
  have h2: "imap_search ?w = Inr (''NO'', [Some ''SEARCH failed''])" by code_simp
  have h3: "''NO'' \<noteq> ''OK''" by simp
  have f: "folder example_storage = Some ''INBOX''" by code_simp
  have s: "send_message example_world 7 ''NO'' = None" by code_simp
  have "scan_email 7 ?w example_storage = ([Select (Some ''INBOX''), Search, Send 7 ''NO''], Inr ())"
    using search_failure_is_forwarded [OF h1 h2 h3, of 7, THEN conjunct1]
    by (simp add: f s)
  with h1 h2 h3 show ?thesis by (intro conjI)
qed

lemma plain_body_missing:
  assumes "imap_fetch w i = Inr (res, data)" and "fetched_raw data = Inr raw"
      and "\<forall>p\<in>set (walk w raw). content_type p \<noteq> ''text/plain''"
  shows "plain_body w i = Inl (KeyError ''text/plain'')"
proof -
  from assms(3) have "filter (\<lambda>p. content_type p = ''text/plain'') (walk w raw) = []"
    by (simp add: filter_empty_conv)
  then have "email_message (walk w raw) ''text/plain'' = None"
    by (simp add: email_message_lookup)
  with assms(1,2) show ?thesis by (simp add: plain_body_def)
qed

lemma scan_loop_stops:
  assumes "\<forall>j\<in>set pre. plain_body w j = Inr (body j) \<and> send_message w c (body j) = None"
      and "plain_body w i = Inl x"
  shows "scan_loop w c (pre @ i # post) =
           (concat (map (\<lambda>j. [Fetch j, Send c (body j)]) pre) @ [Fetch i], Inl x)"
  using assms(2) by (simp add: scan_loop_append [OF assms(1)] scan_loop_step del: scan_loop.simps)

text \<open>
  Claim C3. When the identifiers before \<open>i\<close> have a plain-text body that is sent and the
  message \<open>i\<close> has no part of type \<open>text/plain\<close>, the scan sends the bodies before \<open>i\<close>,
  fetches \<open>i\<close>, and ends there with \<open>KeyError\<close>: no identifier after \<open>i\<close> is fetched, and
  the cycle around the scan ends with that exception.
\<close>

theorem scan_stops_at_missing_plain_text:
  assumes "imap_select w (folder st) = None"
      and "imap_search w = Inr (''OK'', Some d # ds)"
      and "py_split d = pre @ i # post"
      and "\<forall>j\<in>set pre. plain_body w j = Inr (body j) \<and> send_message w c (body j) = None"
      and "imap_fetch w i = Inr (res, data)" and "fetched_raw data = Inr raw"
      and "\<forall>p\<in>set (walk w raw). content_type p \<noteq> ''text/plain''"
  shows "scan_email c w st =
           (Select (folder st) # Search #
              concat (map (\<lambda>j. [Fetch j, Send c (body j)]) pre) @ [Fetch i],
            Inl (KeyError ''text/plain''))
       \<and> sent_texts (fst (scan_email c w st)) = map body pre
       \<and> fetched_ids (fst (scan_email c w st)) = pre @ [i]
       \<and> (create_imap_connection w st = (tr0, None) \<and> imap_logout w = None \<longrightarrow>
            snd (imap_trace (scan_email c) w st) = Inl (KeyError ''text/plain''))"
proof -
  have missing: "plain_body w i = Inl (KeyError ''text/plain'')"
    by (rule plain_body_missing [OF assms(5-7)])
  have run: "scan_email c w st =
           (Select (folder st) # Search #
              concat (map (\<lambda>j. [Fetch j, Send c (body j)]) pre) @ [Fetch i],
            Inl (KeyError ''text/plain''))"
    by (simp add: scan_email_found [OF assms(1,2)] assms(3) scan_loop_stops [OF assms(4) missing])
  have sent: "sent_texts (fst (scan_email c w st)) = map body pre"
    by (simp add: run sent_texts_append sent_texts_rounds)
  have fetched: "fetched_ids (fst (scan_email c w st)) = pre @ [i]"
    by (simp add: run fetched_ids_append fetched_ids_rounds)
  have raised: "snd (imap_trace (scan_email c) w st) = Inl (KeyError ''text/plain'')"
    if "create_imap_connection w st = (tr0, None)" and "imap_logout w = None"
    using that(2) by (simp add: imap_trace_connected [OF that(1)] run)
  from run sent fetched raised show ?thesis by blast
qed

theorem scan_stops_at_missing_plain_text_witness:
  "imap_select example_world (folder example_storage) = None
   \<and> imap_search example_world = Inr (''OK'', [Some ''1 2 3''])
   \<and> py_split ''1 2 3'' = [''1''] @ ''2'' # [''3'']
   \<and> plain_body example_world ''1'' = Inr ''body 1''
   \<and> send_message example_world 7 ''body 1'' = None
   \<and> imap_fetch example_world ''2'' = Inr (''OK'', [Pair ''RFC822'' ''2'', Raw '')''])
   \<and> fetched_raw [Pair ''RFC822'' ''2'', Raw '')''] = Inr ''2''
   \<and> map content_type (walk example_world ''2'') = [''multipart/alternative'', ''text/html'']
   \<and> scan_email 7 example_world example_storage =
       ([Select (Some ''INBOX''), Search, Fetch ''1'', Send 7 ''body 1'', Fetch ''2''],
        Inl (KeyError ''text/plain''))
   \<and> fetched_ids (fst (scan_email 7 example_world example_storage)) = [''1'', ''2'']
   \<and> snd (imap_trace (scan_email 7) example_world example_storage) =
       Inl (KeyError ''text/plain'')"
proof -
  let ?tr0 = "[Open ''imap.example.org'', Login ''user'' ''secret'']"
  have h1: "imap_select example_world (folder example_storage) = None" by code_simp
  have h2: "imap_search example_world = Inr (''OK'', [Some ''1 2 3''])" by code_simp
  have h3: "py_split ''1 2 3'' = [''1''] @ ''2'' # [''3'']" by code_simp
  have p1: "plain_body example_world ''1'' = Inr ''body 1''" by code_simp
  have s1: "send_message example_world 7 ''body 1'' = None" by code_simp
  have h4: "\<forall>j\<in>set [''1'']. plain_body example_world j = Inr (''body '' @ j)
              \<and> send_message example_world 7 (''body '' @ j) = None"
    using p1 s1 by simp
  have h5: "imap_fetch example_world ''2'' = Inr (''OK'', [Pair ''RFC822'' ''2'', Raw '')''])"
    by code_simp
  have h6: "fetched_raw [Pair ''RFC822'' ''2'', Raw '')''] = Inr ''2''" by code_simp
  have types: "map content_type (walk example_world ''2'') = [''multipart/alternative'', ''text/html'']"
    by code_simp
  have h7: "\<forall>p\<in>set (walk example_world ''2''). content_type p \<noteq> ''text/plain''"
    by code_simp
  have conn: "create_imap_connection example_world example_storage = (?tr0, None)"
    by code_simp
  have lo: "imap_logout example_world = None" by code_simp
  have f: "folder example_storage = Some ''INBOX''" by code_simp
  note t = scan_stops_at_missing_plain_text [OF h1 h2 h3 h4 h5 h6 h7, of ?tr0]
  have a: "scan_email 7 example_world example_storage =
       ([Select (Some ''INBOX''), Search, Fetch ''1'', Send 7 ''body 1'', Fetch ''2''],
        Inl (KeyError ''text/plain''))"
    using t [THEN conjunct1] by (simp add: f)
  have b: "fetched_ids (fst (scan_email 7 example_world example_storage)) = [''1'', ''2'']"
    using t [THEN conjunct2, THEN conjunct2, THEN conjunct1] by simp
  have c: "snd (imap_trace (scan_email 7) example_world example_storage) =
       Inl (KeyError ''text/plain'')"
    using t [THEN conjunct2, THEN conjunct2, THEN conjunct2, THEN mp, OF conjI, OF conn lo] .
  from h1 h2 h3 p1 s1 h5 h6 types a b c show ?thesis by (intro conjI)
qed

text \<open>
  Claim C7. After a successful search the scan fetches an identifier and sends its body
  before it fetches the next one, in the order of the identifiers; the texts sent are the
  bodies in that order. When a later identifier fails, the bodies before it have been sent.
\<close>

theorem scan_sends_in_order:
  assumes "imap_select w (folder st) = None"
      and "imap_search w = Inr (''OK'', Some d # ds)"
  shows "((\<forall>i\<in>set (py_split d). plain_body w i = Inr (body i) \<and> send_message w c (body i) = None) \<longrightarrow>
            scan_email c w st =
              (Select (folder st) # Search #
                 concat (map (\<lambda>i. [Fetch i, Send c (body i)]) (py_split d)), Inr ())
          \<and> sent_texts (fst (scan_email c w st)) = map body (py_split d))
       \<and> (py_split d = pre @ i # post
            \<and> (\<forall>j\<in>set pre. plain_body w j = Inr (body j) \<and> send_message w c (body j) = None)
            \<and> plain_body w i = Inl x \<longrightarrow>
            scan_email c w st =
              (Select (folder st) # Search #
                 concat (map (\<lambda>j. [Fetch j, Send c (body j)]) pre) @ [Fetch i], Inl x)
          \<and> sent_texts (fst (scan_email c w st)) = map body pre)"
proof (intro conjI impI)
  assume all: "\<forall>i\<in>set (py_split d). plain_body w i = Inr (body i) \<and> send_message w c (body i) = None"
  show run: "scan_email c w st =
              (Select (folder st) # Search #
                 concat (map (\<lambda>i. [Fetch i, Send c (body i)]) (py_split d)), Inr ())"
    by (simp add: scan_email_found [OF assms] scan_loop_all [OF all])
  show "sent_texts (fst (scan_email c w st)) = map body (py_split d)"
    by (simp add: run sent_texts_rounds)
next
  assume part: "py_split d = pre @ i # post
            \<and> (\<forall>j\<in>set pre. plain_body w j = Inr (body j) \<and> send_message w c (body j) = None)
            \<and> plain_body w i = Inl x"
  then have split: "py_split d = pre @ i # post"
    and pre: "\<forall>j\<in>set pre. plain_body w j = Inr (body j) \<and> send_message w c (body j) = None"
    and bad: "plain_body w i = Inl x" by blast+
  show run: "scan_email c w st =
              (Select (folder st) # Search #
                 concat (map (\<lambda>j. [Fetch j, Send c (body j)]) pre) @ [Fetch i], Inl x)"
    by (simp add: scan_email_found [OF assms] split scan_loop_stops [OF pre bad])
  show "sent_texts (fst (scan_email c w st)) = map body pre"
    by (simp add: run sent_texts_append sent_texts_rounds)
qed

theorem scan_sends_in_order_witness:
  "imap_select (example_world\<lparr>imap_search := Inr (''OK'', [Some ''1 3 4''])\<rparr>)
      (folder example_storage) = None
   \<and> imap_search (example_world\<lparr>imap_search := Inr (''OK'', [Some ''1 3 4''])\<rparr>) =
       Inr (''OK'', [Some ''1 3 4''])
   \<and> py_split ''1 3 4'' = [''1'', ''3'', ''4'']
   \<and> map (plain_body (example_world\<lparr>imap_search := Inr (''OK'', [Some ''1 3 4''])\<rparr>))
         [''1'', ''3'', ''4''] = [Inr ''body 1'', Inr ''signature'', Inr ''body 4'']
   \<and> scan_email 7 (example_world\<lparr>imap_search := Inr (''OK'', [Some ''1 3 4''])\<rparr>)
         example_storage =
       ([Select (Some ''INBOX''), Search, Fetch ''1'', Send 7 ''body 1'',
         Fetch ''3'', Send 7 ''signature'', Fetch ''4'', Send 7 ''body 4''], Inr ())
   \<and> sent_texts (fst (scan_email 7
         (example_world\<lparr>imap_search := Inr (''OK'', [Some ''1 3 4''])\<rparr>) example_storage)) =
       [''body 1'', ''signature'', ''body 4'']
   \<and> imap_select example_world (folder example_storage) = None
   \<and> imap_search example_world = Inr (''OK'', [Some ''1 2 3''])
   \<and> py_split ''1 2 3'' = [''1''] @ ''2'' # [''3'']
   \<and> plain_body example_world ''1'' = Inr ''body 1''
   \<and> plain_body example_world ''2'' = Inl (KeyError ''text/plain'')
   \<and> scan_email 7 example_world example_storage =
       ([Select (Some ''INBOX''), Search, Fetch ''1'', Send 7 ''body 1'', Fetch ''2''],
        Inl (KeyError ''text/plain''))
   \<and> sent_texts (fst (scan_email 7 example_world example_storage)) = [''body 1'']"
proof -
  let ?w = "example_world\<lparr>imap_search := Inr (''OK'', [Some ''1 3 4''])\<rparr>"
  let ?body = "\<lambda>i. if i = ''3'' then ''signature'' else ''body '' @ i"
  have f: "folder example_storage = Some ''INBOX''" by code_simp
  have h1: "imap_select ?w (folder example_storage) = None" by code_simp
  have h2: "imap_search ?w = Inr (''OK'', [Some ''1 3 4''])" by code_simp
  have sp: "py_split ''1 3 4'' = [''1'', ''3'', ''4'']" by code_simp
  have bodies: "map (plain_body ?w) [''1'', ''3'', ''4''] =
      [Inr ''body 1'', Inr ''signature'', Inr ''body 4'']" by code_simp
  have all: "\<forall>i\<in>set (py_split ''1 3 4''). plain_body ?w i = Inr (?body i)
      \<and> send_message ?w 7 (?body i) = None" by code_simp
  note t = scan_sends_in_order [OF h1 h2, of ?body 7, THEN conjunct1, THEN mp, OF all]
  have a: "scan_email 7 ?w example_storage =
       ([Select (Some ''INBOX''), Search, Fetch ''1'', Send 7 ''body 1'',
         Fetch ''3'', Send 7 ''signature'', Fetch ''4'', Send 7 ''body 4''], Inr ())"
    using t [THEN conjunct1] unfolding sp f by simp
  have b: "sent_texts (fst (scan_email 7 ?w example_storage)) =
       [''body 1'', ''signature'', ''body 4'']"
    using t [THEN conjunct2] unfolding sp by simp
  have g1: "imap_select example_world (folder example_storage) = None" by code_simp
  have g2: "imap_search example_world = Inr (''OK'', [Some ''1 2 3''])" by code_simp
  have g3: "py_split ''1 2 3'' = [''1''] @ ''2'' # [''3'']" by code_simp
  have p1: "plain_body example_world ''1'' = Inr ''body 1''" by code_simp
  have s1: "send_message example_world 7 ''body 1'' = None" by code_simp
  have p2: "plain_body example_world ''2'' = Inl (KeyError ''text/plain'')" by code_simp
  have g4: "\<forall>j\<in>set [''1'']. plain_body example_world j = Inr (''body '' @ j)
              \<and> send_message example_world 7 (''body '' @ j) = None"
    using p1 s1 by simp
  note u = scan_sends_in_order [OF g1 g2, of "\<lambda>j. ''body '' @ j" 7 "[''1'']" "''2''" "[''3'']"
      "KeyError ''text/plain''", THEN conjunct2, THEN mp, OF conjI, OF g3 conjI, OF g4 p2]
  have c: "scan_email 7 example_world example_storage =
       ([Select (Some ''INBOX''), Search, Fetch ''1'', Send 7 ''body 1'', Fetch ''2''],
        Inl (KeyError ''text/plain''))"
    using u [THEN conjunct1] unfolding f by simp
  have d: "sent_texts (fst (scan_email 7 example_world example_storage)) = [''body 1'']"
    using u [THEN conjunct2] by simp
  from h1 h2 sp bodies a b g1 g2 g3 p1 p2 c d show ?thesis by (intro conjI)
qed

text \<open>
  Claim C9. For a message with more than one part of type \<open>text/plain\<close>, the body is the
  payload of the last such part, and the iteration sends it once.
\<close>

theorem last_plain_text_part_is_sent:
  assumes "imap_fetch w i = Inr (res, data)" and "fetched_raw data = Inr raw"
      and "1 < length (filter (\<lambda>p. content_type p = ''text/plain'') (walk w raw))"
      and "body = payload (last (filter (\<lambda>p. content_type p = ''text/plain'') (walk w raw)))"
  shows "plain_body w i = Inr body
       \<and> scan_loop w c (i # ids) =
           (case send_message w c body of
              Some x \<Rightarrow> ([Fetch i, Send c body], Inl x)
            | None \<Rightarrow> (Fetch i # Send c body # fst (scan_loop w c ids), snd (scan_loop w c ids)))
       \<and> sent_texts (fst (scan_loop w c [i])) = [body]"
proof -
  from assms(3) have "filter (\<lambda>p. content_type p = ''text/plain'') (walk w raw) \<noteq> []"
    by auto
  then have "email_message (walk w raw) ''text/plain'' = Some body"
    by (simp add: email_message_lookup assms(4))
  with assms(1,2) have pb: "plain_body w i = Inr body"
    by (simp add: plain_body_def)
  have step: "scan_loop w c (i # ids) =
           (case send_message w c body of
              Some x \<Rightarrow> ([Fetch i, Send c body], Inl x)
            | None \<Rightarrow> (Fetch i # Send c body # fst (scan_loop w c ids), snd (scan_loop w c ids)))"
    for ids
    by (simp add: scan_loop_step pb del: scan_loop.simps)
  have "sent_texts (fst (scan_loop w c [i])) = [body]"
    by (simp add: step split: option.splits del: scan_loop.simps) simp
  with pb step show ?thesis by blast
qed

theorem last_plain_text_part_is_sent_witness:
  "imap_fetch example_world ''3'' = Inr (''OK'', [Pair ''RFC822'' ''3'', Raw '')''])
   \<and> fetched_raw [Pair ''RFC822'' ''3'', Raw '')''] = Inr ''3''
   \<and> map payload (filter (\<lambda>p. content_type p = ''text/plain'') (walk example_world ''3'')) =
       [''three'', ''signature'']
   \<and> plain_body example_world ''3'' = Inr ''signature''
   \<and> scan_loop example_world 7 [''3''] = ([Fetch ''3'', Send 7 ''signature''], Inr ())
   \<and> sent_texts (fst (scan_loop example_world 7 [''3''])) = [''signature'']"
proof -
  have h1: "imap_fetch example_world ''3'' = Inr (''OK'', [Pair ''RFC822'' ''3'', Raw '')''])"
    by code_simp
  have h2: "fetched_raw [Pair ''RFC822'' ''3'', Raw '')''] = Inr ''3''" by code_simp
  have parts: "map payload (filter (\<lambda>p. content_type p = ''text/plain'') (walk example_world ''3'')) =
       [''three'', ''signature'']" by code_simp
  have h3: "1 < length (filter (\<lambda>p. content_type p = ''text/plain'') (walk example_world ''3''))"
    by code_simp
  have h4: "''signature'' =
      payload (last (filter (\<lambda>p. content_type p = ''text/plain'') (walk example_world ''3'')))"
    by code_simp
  have s: "send_message example_world 7 ''signature'' = None" by code_simp
  note t = last_plain_text_part_is_sent [OF h1 h2 h3 h4, of 7 "[]"]
  have a: "plain_body example_world ''3'' = Inr ''signature''"
    using t [THEN conjunct1] .
  have b: "scan_loop example_world 7 [''3''] = ([Fetch ''3'', Send 7 ''signature''], Inr ())"
    using t [THEN conjunct2, THEN conjunct1] unfolding s by simp
  have c: "sent_texts (fst (scan_loop example_world 7 [''3''])) = [''signature'']"
    using t [THEN conjunct2, THEN conjunct2] .
  from h1 h2 parts a b c show ?thesis by (intro conjI)
qed

text \<open>
  Claim C10. The scan does the same whatever the status of the fetch answers is; with any
  status \<open>res\<close>, a message whose data holds a plain-text part has that part sent, and
  nothing else is sent for it.
\<close>

theorem fetch_status_is_ignored:
  "scan_email c (with_fetch_status f w) st = scan_email c w st
   \<and> (imap_fetch w i = Inr (res, data) \<and> fetched_raw data = Inr raw
        \<and> email_message (walk w raw) ''text/plain'' = Some body \<longrightarrow>
      fst (scan_loop w c [i]) = [Fetch i, Send c body])"
proof (intro conjI impI)
  have "imap_select (with_fetch_status f w) = imap_select w"
    and "imap_search (with_fetch_status f w) = imap_search w"
    and "send_message (with_fetch_status f w) = send_message w"
    by (simp_all add: with_fetch_status_def)
  then show "scan_email c (with_fetch_status f w) st = scan_email c w st"
    by (simp add: scan_email_def with_fetch_status_loop
          split: option.splits sum.splits list.splits prod.splits)
next
  assume "imap_fetch w i = Inr (res, data) \<and> fetched_raw data = Inr raw
        \<and> email_message (walk w raw) ''text/plain'' = Some body"
  then show "fst (scan_loop w c [i]) = [Fetch i, Send c body]"
    by (simp split: option.splits)
qed

theorem fetch_status_is_ignored_witness:
  "imap_fetch (with_fetch_status (\<lambda>i r. ''NO'') example_world) ''1'' =
      Inr (''NO'', [Pair ''RFC822'' ''1'', Raw '')''])
   \<and> fetched_raw [Pair ''RFC822'' ''1'', Raw '')''] = Inr ''1''
   \<and> email_message (walk (with_fetch_status (\<lambda>i r. ''NO'') example_world) ''1'') ''text/plain'' =
       Some ''body 1''
   \<and> fst (scan_loop (with_fetch_status (\<lambda>i r. ''NO'') example_world) 7 [''1'']) =
       [Fetch ''1'', Send 7 ''body 1'']
   \<and> scan_email 7 (with_fetch_status (\<lambda>i r. ''NO'') example_world) example_storage =
       ([Select (Some ''INBOX''), Search, Fetch ''1'', Send 7 ''body 1'', Fetch ''2''],
        Inl (KeyError ''text/plain''))"
proof -
  let ?w = "with_fetch_status (\<lambda>i r. ''NO'') example_world"
  have h1: "imap_fetch ?w ''1'' = Inr (''NO'', [Pair ''RFC822'' ''1'', Raw '')''])"
    by code_simp
  have h2: "fetched_raw [Pair ''RFC822'' ''1'', Raw '')''] = Inr ''1''" by code_simp
  have h3: "email_message (walk ?w ''1'') ''text/plain'' = Some ''body 1''" by code_simp
  have scan: "scan_email 7 example_world example_storage =
     ([Select (Some ''INBOX''), Search, Fetch ''1'', Send 7 ''body 1'', Fetch ''2''],
      Inl (KeyError ''text/plain''))"
    by code_simp
  have a: "fst (scan_loop ?w 7 [''1'']) = [Fetch ''1'', Send 7 ''body 1'']"
    using fetch_status_is_ignored [of 7 "\<lambda>i r. ''NO''" ?w example_storage "''1''" "''NO''"
        "[Pair ''RFC822'' ''1'', Raw '')'']" "''1''" "''body 1''",
        THEN conjunct2, THEN mp, OF conjI, OF h1 conjI, OF h2 h3] .
  have b: "scan_email 7 ?w example_storage =
       ([Select (Some ''INBOX''), Search, Fetch ''1'', Send 7 ''body 1'', Fetch ''2''],
        Inl (KeyError ''text/plain''))"
    using fetch_status_is_ignored [of 7 "\<lambda>i r. ''NO''" example_world example_storage,
        THEN conjunct1] unfolding scan .
  from h1 h2 h3 a b show ?thesis by (intro conjI)
qed

section \<open>The folder prompt\<close>

lemma select_email_folder_out_of_range:
  assumes "imap_list w = Inr (result, folders)"
      and "(if result = ''OK'' then enum_loop w 1 folders Map.empty else ([], Inr Map.empty)) =
             (tr, Inr enum_folders)"
      and "py_int (stdin_line w) = Some n" and "enum_folders n = None"
  shows "select_email_folder w st =
           (List # tr @ [Input ''Select number of folder:''],
            Inr (st\<lparr>folder := Some ''INBOX''\<rparr>))"
  using assms by (simp add: select_email_folder_def)

lemma select_email_folder_not_a_number:
  assumes "imap_list w = Inr (result, folders)"
      and "(if result = ''OK'' then enum_loop w 1 folders Map.empty else ([], Inr Map.empty)) =
             (tr, Inr enum_folders)"
      and "py_int (stdin_line w) = None"
  shows "select_email_folder w st =
           (List # tr @ [Input ''Select number of folder:''], Inl ValueError)"
  using assms by (simp add: select_email_folder_def)

text \<open>
  Claim C8. At the prompt of the example mailbox the two folders are listed, numbered
  from 1, and the line \<open>abc\<close> is read; \<open>int\<close> raises \<open>ValueError\<close> on it, the session is
  released, and no folder is stored: the run ends with the exception.
\<close>

theorem folder_prompt_not_a_number:
  "stdin_line example_world = ''abc''
   \<and> main_folder example_world (example_storage\<lparr>folder := None\<rparr>) =
       ([Open ''imap.example.org'', Login ''user'' ''secret'', List,
         Print ''1. (HasNoChildren) \"/\" \"INBOX\"'',
         Print ''2. (HasNoChildren) \"/\" \"Work\"'',
         Input ''Select number of folder:'', Close, Logout],
        Inl ValueError)"
  by code_simp

end
